theory Spec2Isabelle
  imports Main
begin

section \<open>Values of the Python program\<close>

text \<open>
  The exceptions that the modelled code raises. \<open>IndexError\<close> is what the spec calls
  an AddressError; \<open>UnboundLocalError\<close> is what Python raises when a local variable is
  read that no branch has assigned; \<open>KeyError\<close> and \<open>ClientError\<close> occur in the
  dataframe client.
\<close>

datatype error =
  IndexError | ValueError | RuntimeError | UnboundLocalError | KeyError | ClientError

text \<open>
  A numpy array: its shape and its elements as nested lists. The shape is kept beside
  the elements because an array with a dimension of length zero still has a shape.
\<close>

datatype 'a nd = Scalar 'a | Arr "'a nd list"

record 'a ndarray =
  ashape :: "nat list"
  abody :: "'a nd"

text \<open>\<open>builtins.slice(start, stop, step)\<close>; an absent field is \<open>None\<close>.\<close>

datatype pslice = PSlice "int option" "int option" "int option"

text \<open>
  One entry of a tuple selector: an integer, a slice, \<open>Ellipsis\<close>, \<open>None\<close>, or an object
  of some other type that is no index for numpy either (a string, a float). Entries
  that are sequences or arrays themselves (numpy's advanced indexing) are not covered.
\<close>

datatype sel = SInt int | SSlice pslice | SEllipsis | SNone | SOther

text \<open>
  The \<open>slice\<close> argument of \<open>read\<close> and \<open>read_block\<close>: \<open>Ellipsis\<close> (the default), an
  integer, a slice, a tuple of entries, \<open>None\<close>, or an object of some other type
  that is no index for numpy either (a string, a float).
\<close>

datatype ndslice = NEllipsis | NInt int | NSlice pslice | NTuple "sel list" | NNone | NOther

text \<open>The argument of \<open>_load_from_files\<close>: \<open>Union[builtins.slice, int]\<close>.\<close>

datatype leading = LInt int | LSlice pslice

definition full_slice :: pslice where
  "full_slice = PSlice None None None"

section \<open>Python slices and numpy basic indexing\<close>

text \<open>Clamping of one slice bound to a sequence of length \<open>n\<close>, as \<open>slice.indices\<close> does.\<close>

definition adjust :: "int \<Rightarrow> int \<Rightarrow> int \<Rightarrow> int" where
  "adjust n step i =
     (if i < 0 then (if i + n < 0 then (if step < 0 then - 1 else 0) else i + n)
      else if n \<le> i then (if step < 0 then n - 1 else n)
      else i)"

text \<open>The positions that a slice selects in a sequence of length \<open>n\<close>; a zero step raises.\<close>

definition slice_indices :: "pslice \<Rightarrow> nat \<Rightarrow> error + nat list" where
  "slice_indices sl n =
     (case sl of PSlice start stop step \<Rightarrow>
        (let st = (case step of None \<Rightarrow> 1 | Some s \<Rightarrow> s) in
         if st = 0 then Inl ValueError
         else
           (let lo = (case start of None \<Rightarrow> (if st < 0 then int n - 1 else 0)
                                   | Some i \<Rightarrow> adjust (int n) st i);
                hi = (case stop of None \<Rightarrow> (if st < 0 then - 1 else int n)
                                  | Some i \<Rightarrow> adjust (int n) st i);
                len = (if st < 0 then (if hi < lo then (lo - hi - 1) div (- st) + 1 else 0)
                       else (if lo < hi then (hi - lo - 1) div st + 1 else 0))
            in Inr (map (\<lambda>k. nat (lo + int k * st)) [0..<nat len]))))"

text \<open>Position of a Python integer index in a sequence of length \<open>n\<close>.\<close>

definition in_range :: "int \<Rightarrow> nat \<Rightarrow> bool" where
  "in_range i n = (- int n \<le> i \<and> i < int n)"

definition position :: "int \<Rightarrow> nat \<Rightarrow> nat" where
  "position i n = nat (if i < 0 then i + int n else i)"

text \<open>
  An index entry once \<open>Ellipsis\<close> has been expanded: an integer, a slice, or the new
  axis that \<open>None\<close> (\<open>np.newaxis\<close>) stands for.
\<close>

datatype bsel = BInt int | BSlice pslice | BNew

text \<open>The entries that use up a dimension of the array: integers and slices.\<close>

definition consumes :: "sel \<Rightarrow> bool" where
  "consumes s = (case s of SInt i \<Rightarrow> True | SSlice sl \<Rightarrow> True | _ \<Rightarrow> False)"

definition expand_entry :: "nat \<Rightarrow> sel \<Rightarrow> bsel list" where
  "expand_entry m s =
     (case s of SInt i \<Rightarrow> [BInt i] | SSlice sl \<Rightarrow> [BSlice sl]
              | SEllipsis \<Rightarrow> replicate m (BSlice full_slice)
              | SNone \<Rightarrow> [BNew] | SOther \<Rightarrow> [])"

text \<open>
  numpy prepares an index tuple before it looks at any entry: an entry that is no
  index, more than one \<open>Ellipsis\<close>, and more integers and slices than dimensions are
  all an IndexError; the \<open>Ellipsis\<close> stands for as many full slices as dimensions are
  left over.
\<close>

definition prepare_index :: "sel list \<Rightarrow> nat \<Rightarrow> error + bsel list" where
  "prepare_index ix ndim =
     (let k = length (filter consumes ix) in
      if SOther \<in> set ix then Inl IndexError
      else if 1 < length (filter (\<lambda>s. s = SEllipsis) ix) then Inl IndexError
      else if ndim < k then Inl IndexError
      else Inr (concat (map (expand_entry (ndim - k)) ix)))"

text \<open>The shape of the result, with the bounds checks, entry by entry from the left.\<close>

fun index_shape :: "bsel list \<Rightarrow> nat list \<Rightarrow> error + nat list" where
  "index_shape [] sh = Inr sh"
| "index_shape (BNew # bs) sh =
     (case index_shape bs sh of Inl e \<Rightarrow> Inl e | Inr sh' \<Rightarrow> Inr (1 # sh'))"
| "index_shape (b # bs) [] = Inl IndexError"
| "index_shape (BInt i # bs) (n # sh) =
     (if in_range i n then index_shape bs sh else Inl IndexError)"
| "index_shape (BSlice sl # bs) (n # sh) =
     (case slice_indices sl n of
        Inl e \<Rightarrow> Inl e
      | Inr js \<Rightarrow> (case index_shape bs sh of
                     Inl e \<Rightarrow> Inl e
                   | Inr sh' \<Rightarrow> Inr (length js # sh')))"

text \<open>The selected elements; called only once \<open>index_shape\<close> has accepted the index.\<close>

fun index_body :: "bsel list \<Rightarrow> 'a nd \<Rightarrow> 'a nd" where
  "index_body [] b = b"
| "index_body (BNew # bs) b = Arr [index_body bs b]"
| "index_body (b # bs) (Scalar x) = Scalar x"
| "index_body (BInt i # bs) (Arr xs) = index_body bs (xs ! position i (length xs))"
| "index_body (BSlice sl # bs) (Arr xs) =
     Arr (map (\<lambda>j. index_body bs (xs ! j))
            (case slice_indices sl (length xs) of Inl e \<Rightarrow> [] | Inr js \<Rightarrow> js))"

definition getitem_tuple :: "'a ndarray \<Rightarrow> sel list \<Rightarrow> error + 'a ndarray" where
  "getitem_tuple arr ix =
     (case prepare_index ix (length (ashape arr)) of
        Inl e \<Rightarrow> Inl e
      | Inr bs \<Rightarrow> (case index_shape bs (ashape arr) of
                     Inl e \<Rightarrow> Inl e
                   | Inr sh \<Rightarrow> Inr \<lparr>ashape = sh, abody = index_body bs (abody arr)\<rparr>))"

text \<open>\<open>arr[key]\<close>: a key that is no tuple is taken as a tuple of one entry.\<close>

definition getitem :: "'a ndarray \<Rightarrow> ndslice \<Rightarrow> error + 'a ndarray" where
  "getitem arr key =
     (case key of
        NEllipsis \<Rightarrow> getitem_tuple arr [SEllipsis]
      | NInt i \<Rightarrow> getitem_tuple arr [SInt i]
      | NSlice sl \<Rightarrow> getitem_tuple arr [SSlice sl]
      | NTuple t \<Rightarrow> getitem_tuple arr t
      | NNone \<Rightarrow> getitem_tuple arr [SNone]
      | NOther \<Rightarrow> getitem_tuple arr [SOther])"

text \<open>\<open>np.squeeze(arr, 0)\<close>: drops the leading axis, which must have length one.\<close>

definition squeeze0 :: "'a ndarray \<Rightarrow> error + 'a ndarray" where
  "squeeze0 arr =
     (case ashape arr of
        [] \<Rightarrow> Inl ValueError
      | n # sh \<Rightarrow> (if n = 1 then
                      (case abody arr of
                         Arr [b] \<Rightarrow> Inr \<lparr>ashape = sh, abody = b\<rparr>
                       | _ \<Rightarrow> Inl ValueError)
                    else Inl ValueError))"

text \<open>\<open>np.atleast_1d(arr)\<close>: a zero-dimensional array becomes an array of shape (1,).\<close>

definition atleast_1d :: "'a ndarray \<Rightarrow> 'a ndarray" where
  "atleast_1d arr =
     (if ashape arr = [] then \<lparr>ashape = [1], abody = Arr [abody arr]\<rparr> else arr)"

text \<open>An array is well formed when its elements are nested as its shape says.\<close>

fun wf_nd :: "nat list \<Rightarrow> 'a nd \<Rightarrow> bool" where
  "wf_nd [] (Scalar x) = True"
| "wf_nd [] (Arr xs) = False"
| "wf_nd (n # sh) (Scalar x) = False"
| "wf_nd (n # sh) (Arr xs) = (length xs = n \<and> list_all (wf_nd sh) xs)"

section \<open>The file-sequence adapter (tiled/adapters/sequence.py)\<close>

text \<open>
  \<open>ArrayStructure\<close>: the shape and, for each dimension, the lengths of its chunks. The
  data type is copied from the first file and plays no part in what follows.
\<close>

record array_structure =
  shape :: "nat list"
  chunks :: "nat list list"

text \<open>
  The adapter. Each entry of \<open>filepaths\<close> is represented by the slab that the file at
  that path holds; a file is named by its position in the list.
\<close>

record 'a adapter =
  filepaths :: "'a ndarray list"
  structure' :: array_structure

text \<open>
  A computation that opens files: the positions of the files it loaded, in order, and
  its result or the exception it raised.
\<close>

type_synonym 'r loaded = "nat list \<times> (error + 'r)"

definition and_then :: "'r loaded \<Rightarrow> ('r \<Rightarrow> error + 's) \<Rightarrow> 's loaded" where
  "and_then m f = (case m of (t, Inl e) \<Rightarrow> (t, Inl e) | (t, Inr x) \<Rightarrow> (t, f x))"

definition slab_shape :: "'a ndarray list \<Rightarrow> nat list" where
  "slab_shape fps = (case fps of [] \<Rightarrow> [] | f # fs \<Rightarrow> ashape f)"

definition stack :: "nat list \<Rightarrow> 'a ndarray list \<Rightarrow> 'a ndarray" where
  "stack S xs = \<lparr>ashape = length xs # S, abody = Arr (map abody xs)\<rparr>"

text \<open>
  Modelled from the spec: \<open>_load_from_files\<close> is abstract in sequence.py and its
  implementations are not part of the source. Its docstring and section 4.2 of the spec
  say: the argument is an integer or a slice along the left-most dimension and selects
  the files to load out of \<open>filepaths\<close>; the result holds the data of each selected
  file, stacked along an additional left-most dimension (so an integer gives a stack
  of one slab). Selecting goes by Python list indexing, so an integer outside the list
  is an IndexError and no file is opened.
\<close>

definition load_from_files :: "'a ndarray list \<Rightarrow> leading \<Rightarrow> 'a ndarray loaded" where
  "load_from_files fps l =
     (case l of
        LInt i \<Rightarrow>
          (if in_range i (length fps)
           then (let j = position i (length fps)
                 in ([j], Inr (stack (ashape (fps ! j)) [fps ! j])))
           else ([], Inl IndexError))
      | LSlice sl \<Rightarrow>
          (case slice_indices sl (length fps) of
             Inl e \<Rightarrow> ([], Inl e)
           | Inr js \<Rightarrow> (js, Inr (stack (slab_shape fps) (map (\<lambda>j. fps ! j) js)))))"

text \<open>An entry of a tuple selector passed on as a selector of its own (\<open>slice[0]\<close>).\<close>

definition entry :: "sel \<Rightarrow> ndslice" where
  "entry s =
     (case s of SInt i \<Rightarrow> NInt i | SSlice sl \<Rightarrow> NSlice sl | SEllipsis \<Rightarrow> NEllipsis
              | SNone \<Rightarrow> NNone | SOther \<Rightarrow> NOther)"

text \<open>
  \<open>FileSequenceAdapter.read\<close>, branch by branch. For a tuple of two or more entries
  the chain of tests on \<open>left_axis\<close> (int, \<open>Ellipsis\<close>, slice) has no \<open>else\<close>: with
  any other leading entry \<open>arr\<close> is still unassigned when \<open>arr[tuple(the_rest)]\<close> is
  evaluated, which is an UnboundLocalError.
\<close>

function read :: "'a adapter \<Rightarrow> ndslice \<Rightarrow> 'a ndarray loaded" where
  "read a NEllipsis = load_from_files (filepaths a) (LSlice full_slice)"
| "read a (NInt i) = and_then (load_from_files (filepaths a) (LInt i)) squeeze0"
| "read a (NSlice sl) = load_from_files (filepaths a) (LSlice sl)"
| "read a (NTuple []) = load_from_files (filepaths a) (LSlice full_slice)"
| "read a (NTuple [s]) = read a (entry s)"
| "read a (NTuple (left_axis # r # the_rest)) =
     (case left_axis of
        SInt i \<Rightarrow>
          and_then (and_then (load_from_files (filepaths a) (LInt i)) squeeze0)
            (\<lambda>arr. map_sum id atleast_1d (getitem arr (NTuple (r # the_rest))))
      | SEllipsis \<Rightarrow>
          and_then (load_from_files (filepaths a) (LSlice full_slice))
            (\<lambda>arr. map_sum id atleast_1d (getitem arr (NTuple (SEllipsis # r # the_rest))))
      | SSlice sl \<Rightarrow>
          and_then (read a (NSlice sl))
            (\<lambda>arr. map_sum id atleast_1d (getitem arr (NTuple (r # the_rest))))
      | SNone \<Rightarrow> ([], Inl UnboundLocalError)
      | SOther \<Rightarrow> ([], Inl UnboundLocalError))"
| "read a NNone = ([], Inl RuntimeError)"
| "read a NOther = ([], Inl RuntimeError)"
  by pat_completeness auto
termination
  by (relation "measure (\<lambda>(a, s). case s of NTuple t \<Rightarrow> 1 | _ \<Rightarrow> 0)")
     (auto simp: entry_def split: sel.splits)

text \<open>
  \<open>FileSequenceAdapter.read_block\<close>. \<open>any(block[1:])\<close> is true when an entry after the
  first is nonzero; \<open>block[0]\<close> of an empty tuple is an IndexError.
\<close>

definition read_block :: "'a adapter \<Rightarrow> int list \<Rightarrow> ndslice \<Rightarrow> 'a ndarray loaded" where
  "read_block a block slice =
     (if list_ex (\<lambda>b. b \<noteq> 0) (drop 1 block) then ([], Inl IndexError)
      else (case block of
              [] \<Rightarrow> ([], Inl IndexError)
            | b0 # bs \<Rightarrow>
                and_then (read a (NSlice (PSlice (Some b0) (Some (b0 + 1)) None)))
                  (\<lambda>arr. getitem arr slice)))"


text \<open>
  \<open>FileSequenceAdapter.__init__\<close>: a structure that is not supplied is inferred from
  the first file; loading it fails when there is no file.
\<close>

definition FileSequenceAdapter_init ::
  "'a ndarray list \<Rightarrow> array_structure option \<Rightarrow> error + 'a adapter" where
  "FileSequenceAdapter_init fps st =
     (case st of
        None \<Rightarrow>
          (case snd (load_from_files fps (LInt 0)) of
             Inl e \<Rightarrow> Inl e
           | Inr dat0 \<Rightarrow>
               (let sh = length fps # drop 1 (ashape dat0)
                in Inr \<lparr>filepaths = fps,
                         structure' = \<lparr>shape = sh,
                           chunks = replicate (hd sh) 1 # map (\<lambda>i. [i]) (drop 1 sh)\<rparr>\<rparr>))
      | Some s \<Rightarrow> Inr \<lparr>filepaths = fps, structure' = s\<rparr>)"

text \<open>
  A sequence of at least one file in which every file holds a well-formed slab of
  shape \<open>S\<close>.
\<close>

definition slabs_of_shape :: "'a ndarray list \<Rightarrow> nat list \<Rightarrow> bool" where
  "slabs_of_shape fps S =
     (fps \<noteq> [] \<and> list_all (\<lambda>f. ashape f = S \<and> wf_nd S (abody f)) fps)"

section \<open>The dataframe client (tiled/client/dataframe.py)\<close>

text \<open>
  Of the table structure the client uses the number of partitions and \<open>meta\<close>, the
  empty dataframe that carries the column names.
\<close>

record table_structure =
  npartitions :: int
  meta :: "string list"

text \<open>
  A lazy dask dataframe: the delayed calls of \<open>_get_partition\<close> that it is made of,
  its columns, and its divisions.
\<close>

record dask_dataframe =
  tasks :: "(int \<times> string list option) list"
  df_meta :: "string list"
  divisions :: "unit option list"

text \<open>
  The client: its structure, and the server behind \<open>item["links"]["partition"]\<close>, which
  answers a request for a partition and a list of fields with the partition's data or
  with an error.
\<close>

record 't client =
  structure_of :: table_structure
  partition_link :: "int \<Rightarrow> string list \<Rightarrow> error + 't"

text \<open>\<open>meta[columns]\<close>: selecting a column that does not exist is a KeyError.\<close>

definition getitem_columns :: "string list \<Rightarrow> string list \<Rightarrow> error + string list" where
  "getitem_columns m columns =
     (if list_all (\<lambda>c. c \<in> set m) columns then Inr columns else Inl KeyError)"

text \<open>
  \<open>_get_partition\<close>: one request to the server; the field parameter is sent only when
  \<open>columns\<close> is a nonempty list. The first component is the list of requests made.
\<close>

definition get_partition ::
  "'t client \<Rightarrow> int \<Rightarrow> string list option \<Rightarrow> (int \<times> string list) list \<times> (error + 't)" where
  "get_partition c part columns =
     (let field = (case columns of None \<Rightarrow> [] | Some cs \<Rightarrow> cs)
      in ([(part, field)], partition_link c part field))"

text \<open>\<open>_DaskDataFrameClient.read_partition\<close>: the range check, then a lazy dataframe.\<close>

definition read_partition ::
  "'t client \<Rightarrow> int \<Rightarrow> string list option \<Rightarrow> error + dask_dataframe" where
  "read_partition c part columns =
     (let st = structure_of c; n = npartitions st in
      if \<not> (0 \<le> part \<and> part < n) then Inl IndexError
      else
        (case (case columns of None \<Rightarrow> Inr (meta st)
                             | Some cs \<Rightarrow> getitem_columns (meta st) cs) of
           Inl e \<Rightarrow> Inl e
         | Inr m \<Rightarrow> Inr \<lparr>tasks = [(part, columns)], df_meta = m,
                          divisions = replicate (nat (1 + n)) None\<rparr>))"

text \<open>\<open>compute()\<close> runs the delayed calls in order and stops at the first error.\<close>

fun run_tasks ::
  "'t client \<Rightarrow> (int \<times> string list option) list
     \<Rightarrow> (int \<times> string list) list \<times> (error + 't list)" where
  "run_tasks c [] = ([], Inr [])"
| "run_tasks c ((p, cols) # ts) =
     (case get_partition c p cols of
        (reqs, Inl e) \<Rightarrow> (reqs, Inl e)
      | (reqs, Inr x) \<Rightarrow>
          (case run_tasks c ts of
             (reqs', Inl e) \<Rightarrow> (reqs @ reqs', Inl e)
           | (reqs', Inr xs) \<Rightarrow> (reqs @ reqs', Inr (x # xs))))"

definition compute ::
  "'t client \<Rightarrow> dask_dataframe \<Rightarrow> (int \<times> string list) list \<times> (error + 't list)" where
  "compute c df = run_tasks c (tasks df)"

text \<open>\<open>DataFrameClient.read_partition\<close>: the lazy dataframe, computed at once.\<close>

definition DataFrameClient_read_partition ::
  "'t client \<Rightarrow> int \<Rightarrow> string list option
     \<Rightarrow> (int \<times> string list) list \<times> (error + 't list)" where
  "DataFrameClient_read_partition c part columns =
     (case read_partition c part columns of
        Inl e \<Rightarrow> ([], Inl e)
      | Inr df \<Rightarrow> compute c df)"

section \<open>The settings accessor (tiled/server/settings.py)\<close>

text \<open>
  \<open>get_settings\<close> is wrapped in \<open>functools.cache\<close> and takes no argument, so the cache
  of the process holds at most one value. \<open>constructed\<close> counts how often \<open>Settings()\<close>
  has run. The constructor reads the environment; it is a parameter here.
\<close>

record 's process =
  cache :: "'s option"
  constructed :: nat

definition get_settings :: "('e \<Rightarrow> 's) \<Rightarrow> 'e \<Rightarrow> 's process \<Rightarrow> 's \<times> 's process" where
  "get_settings Settings env p =
     (case cache p of
        Some s \<Rightarrow> (s, p)
      | None \<Rightarrow> (let s = Settings env
                 in (s, \<lparr>cache = Some s, constructed = constructed p + 1\<rparr>)))"

text \<open>
  A run of the process: one call of \<open>get_settings\<close> for each entry of the list, which
  is the environment at the time of that call.
\<close>

fun calls :: "('e \<Rightarrow> 's) \<Rightarrow> 'e list \<Rightarrow> 's process \<Rightarrow> 's list \<times> 's process" where
  "calls Settings [] p = ([], p)"
| "calls Settings (env # envs) p =
     (case get_settings Settings env p of
        (s, p') \<Rightarrow> (case calls Settings envs p' of (ss, p'') \<Rightarrow> (s # ss, p'')))"

section \<open>Concrete inputs\<close>

text \<open>Three files, each holding a slab of shape (2,), and the array they stack to.\<close>

definition example_files :: "nat ndarray list" where
  "example_files =
     [\<lparr>ashape = [2], abody = Arr [Scalar 0, Scalar 1]\<rparr>,
      \<lparr>ashape = [2], abody = Arr [Scalar 10, Scalar 11]\<rparr>,
      \<lparr>ashape = [2], abody = Arr [Scalar 20, Scalar 21]\<rparr>]"

definition example_adapter :: "nat adapter" where
  "example_adapter =
     \<lparr>filepaths = example_files,
      structure' = \<lparr>shape = [3, 2], chunks = [[1, 1, 1], [2]]\<rparr>\<rparr>"

definition example_full :: "nat ndarray" where
  "example_full =
     \<lparr>ashape = [3, 2],
      abody = Arr [Arr [Scalar 0, Scalar 1], Arr [Scalar 10, Scalar 11],
                   Arr [Scalar 20, Scalar 21]]\<rparr>"

text \<open>A table of three partitions with columns A and B; the server echoes the request.\<close>

definition example_client :: "(int \<times> string list) client" where
  "example_client =
     \<lparr>structure_of = \<lparr>npartitions = 3, meta = [''A'', ''B'']\<rparr>,
      partition_link = (\<lambda>p field. Inr (p, field))\<rparr>"

section \<open>Slices and indexing\<close>

lemma slice_indices_contiguous:
  assumes "0 \<le> a" "a \<le> b" "b \<le> int n" "step = None \<or> step = Some 1"
  shows "slice_indices (PSlice (Some a) (Some b) step) n = Inr [nat a..<nat b]"
proof -
  have "map (\<lambda>k. nat (a + int k)) [0..<nat (b - a)] = [nat a..<nat b]"
    using assms by (auto intro!: nth_equalityI simp: nat_add_distrib)
  with assms show ?thesis
    by (auto simp: slice_indices_def adjust_def Let_def)
qed

lemma slice_indices_full: "slice_indices full_slice n = Inr [0..<n]"
  by (simp add: slice_indices_def full_slice_def Let_def map_idI)

lemma index_shape_full:
  "index_shape (replicate (length sh) (BSlice full_slice)) sh = Inr sh"
  by (induction sh) (simp_all add: slice_indices_full)

lemma index_body_full:
  "wf_nd sh b \<Longrightarrow> index_body (replicate (length sh) (BSlice full_slice)) b = b"
proof (induction sh arbitrary: b)
  case Nil
  then show ?case by simp
next
  case (Cons n sh)
  then obtain xs where b: "b = Arr xs" and all: "list_all (wf_nd sh) xs"
    by (cases b) auto
  have "map (\<lambda>j. index_body (replicate (length sh) (BSlice full_slice)) (xs ! j)) [0..<length xs]
        = map (\<lambda>j. xs ! j) [0..<length xs]"
    using all Cons.IH by (auto simp: list_all_length)
  then show ?case
    using b by (simp add: slice_indices_full map_nth)
qed

lemma prepare_index_ellipsis:
  "prepare_index [SEllipsis] m = Inr (replicate m (BSlice full_slice))"
  by (simp add: prepare_index_def expand_entry_def consumes_def)

lemma prepare_index_error: "prepare_index ix m = Inl e \<Longrightarrow> e = IndexError"
  by (auto simp: prepare_index_def Let_def split: if_splits)

lemma prepare_index_int:
  "prepare_index (SInt i # ix) (Suc m) = map_sum id ((#) (BInt i)) (prepare_index ix m)"
  by (simp add: prepare_index_def Let_def expand_entry_def consumes_def)

lemma getitem_ellipsis:
  "wf_nd (ashape arr) (abody arr) \<Longrightarrow> getitem arr NEllipsis = Inr (arr :: 'a ndarray)"
  by (simp add: getitem_def getitem_tuple_def prepare_index_ellipsis index_shape_full
      index_body_full)

lemma squeeze0_stack1: "squeeze0 (stack (ashape f) [f]) = Inr (f :: 'a ndarray)"
  by (simp add: squeeze0_def stack_def)

lemma position_less: "in_range i n \<Longrightarrow> position i n < n"
  by (auto simp: in_range_def position_def)

lemma map_nth_upt: "b \<le> length xs \<Longrightarrow> map (\<lambda>j. xs ! j) [a..<b] = take (b - a) (drop a xs)"
  by (auto intro!: nth_equalityI)

lemma getitem_tuple_stack_int:
  assumes "list_all (\<lambda>f. ashape f = S) fps"
  shows "getitem_tuple (stack S fps) (SInt i # ix)
         = (if in_range i (length fps) then getitem_tuple (fps ! position i (length fps)) ix
            else Inl IndexError)"
proof (cases "prepare_index ix (length S)")
  case (Inl e)
  then have "e = IndexError" by (rule prepare_index_error)
  with Inl assms show ?thesis
    by (auto simp: getitem_tuple_def stack_def prepare_index_int list_all_length
        dest: position_less)
next
  case (Inr bs)
  with assms show ?thesis
    by (auto simp: getitem_tuple_def stack_def prepare_index_int list_all_length
        dest: position_less split: sum.splits)
qed







section \<open>Reading from the file sequence\<close>

lemma fst_and_then: "fst (and_then m f) = fst m"
  by (cases m) (auto simp: and_then_def split: sum.splits)

lemma slabs_nth:
  "slabs_of_shape fps S \<Longrightarrow> j < length fps
   \<Longrightarrow> ashape (fps ! j) = S \<and> wf_nd S (abody (fps ! j))"
  by (simp add: slabs_of_shape_def list_all_length)

lemma slabs_slab_shape: "slabs_of_shape fps S \<Longrightarrow> slab_shape fps = S"
  by (cases fps) (auto simp: slabs_of_shape_def slab_shape_def)

lemma read_all:
  "read a NEllipsis
     = ([0..<length (filepaths a)], Inr (stack (slab_shape (filepaths a)) (filepaths a)))"
  by (simp add: load_from_files_def slice_indices_full map_nth)

lemma read_index:
  assumes "slabs_of_shape (filepaths a) S" and "0 \<le> i" and "i < int (length (filepaths a))"
  shows "read a (NInt i) = ([nat i], Inr (filepaths a ! nat i))"
proof -
  let ?f = "filepaths a ! nat i"
  have "squeeze0 (stack (ashape ?f) [?f]) = Inr ?f" by (rule squeeze0_stack1)
  with assms show ?thesis
    by (simp add: load_from_files_def in_range_def position_def and_then_def Let_def)
qed

lemma read_range:
  assumes "slabs_of_shape (filepaths a) S"
    and "0 \<le> lo" and "lo \<le> hi" and "hi \<le> int (length (filepaths a))"
    and "step = None \<or> step = Some 1"
  shows "read a (NSlice (PSlice (Some lo) (Some hi) step))
         = ([nat lo..<nat hi],
            Inr \<lparr>ashape = nat (hi - lo) # S,
                  abody = Arr (map abody (take (nat (hi - lo)) (drop (nat lo) (filepaths a))))\<rparr>)"
proof -
  have "nat hi \<le> length (filepaths a)" using assms by linarith
  then have "map (\<lambda>j. filepaths a ! j) [nat lo..<nat hi]
             = take (nat hi - nat lo) (drop (nat lo) (filepaths a))"
    by (rule map_nth_upt)
  moreover have "nat hi - nat lo = nat (hi - lo)" using assms by linarith
  ultimately show ?thesis
    using assms
    by (simp add: load_from_files_def slice_indices_contiguous stack_def slabs_slab_shape)
qed

lemma example_slabs: "slabs_of_shape (filepaths example_adapter) [2]"
  by (simp add: slabs_of_shape_def example_adapter_def example_files_def)

lemma example_read_all: "read example_adapter NEllipsis = ([0, 1, 2], Inr example_full)"
  by code_simp

text \<open>
  C3: over files that each hold a slab of shape \<open>S\<close>, \<open>read(i)\<close> for an integer \<open>i\<close>
  with \<open>0 \<le> i < N\<close> loads the file at position \<open>i\<close> and no other, and returns the slab
  of that file, an array of shape \<open>S\<close>: the leading dimension is dropped.
\<close>

theorem read_int_one_file:
  assumes "slabs_of_shape (filepaths a) S" and "0 \<le> i" and "i < int (length (filepaths a))"
  shows "read a (NInt i) = ([nat i], Inr (filepaths a ! nat i))
         \<and> ashape (filepaths a ! nat i) = S"
proof -
  have "nat i < length (filepaths a)" using assms by linarith
  then have "ashape (filepaths a ! nat i) = S"
    using slabs_nth [OF assms(1)] by simp
  with read_index [OF assms] show ?thesis by simp
qed

text \<open>C3 at a concrete input: the second of three files.\<close>

theorem read_int_one_file_witness:
  "slabs_of_shape (filepaths example_adapter) [2] \<and> (0::int) \<le> 1
   \<and> (1::int) < int (length (filepaths example_adapter))
   \<and> read example_adapter (NInt 1)
       = ([1], Inr \<lparr>ashape = [2], abody = Arr [Scalar 10, Scalar 11]\<rparr>)"
  using read_int_one_file [OF example_slabs, of 1] example_slabs
  by (simp add: example_adapter_def example_files_def)

text \<open>
  C4: over files that each hold a slab of shape \<open>S\<close>, \<open>read(slice(a, b))\<close> with
  \<open>0 \<le> a \<le> b \<le> N\<close> (and no step, or step one) loads the files at positions
  \<open>a, ..., b - 1\<close> and no other, and returns their slabs stacked: an array of shape
  \<open>(b - a, *S)\<close>.
\<close>

theorem read_slice_contiguous:
  assumes "slabs_of_shape (filepaths a) S"
    and "0 \<le> lo" and "lo \<le> hi" and "hi \<le> int (length (filepaths a))"
    and "step = None \<or> step = Some 1"
  shows "read a (NSlice (PSlice (Some lo) (Some hi) step))
         = ([nat lo..<nat hi],
            Inr \<lparr>ashape = nat (hi - lo) # S,
                  abody = Arr (map abody (take (nat (hi - lo)) (drop (nat lo) (filepaths a))))\<rparr>)"
  using assms by (rule read_range)

text \<open>C4 at a concrete input: the last two of three files.\<close>

theorem read_slice_contiguous_witness:
  "slabs_of_shape (filepaths example_adapter) [2] \<and> (0::int) \<le> 1 \<and> (1::int) \<le> 3
   \<and> (3::int) \<le> int (length (filepaths example_adapter))
   \<and> read example_adapter (NSlice (PSlice (Some 1) (Some 3) None))
       = ([1, 2], Inr \<lparr>ashape = [2, 2],
                        abody = Arr [Arr [Scalar 10, Scalar 11], Arr [Scalar 20, Scalar 21]]\<rparr>)"
  using read_slice_contiguous [OF example_slabs, of 1 3 None] example_slabs
  by (simp add: example_adapter_def example_files_def upt_rec)

text \<open>
  C1, as the code has it: over files that each hold a slab of shape \<open>S\<close>, for
  \<open>0 \<le> i < N\<close> and zeros in every trailing position, \<open>read_block((i, 0, ..., 0))\<close>
  with the default slice loads file \<open>i\<close> alone and returns its slab with a leading
  dimension of length one, an array of shape \<open>(1, *S)\<close>. That is the value of
  \<open>read(slice(i, i + 1))\<close>, and squeezing its leading axis gives the value of \<open>read(i)\<close>.
\<close>

theorem read_block_leading_slab:
  assumes "slabs_of_shape (filepaths a) S" and "0 \<le> i" and "i < int (length (filepaths a))"
    and "list_all (\<lambda>b. b = 0) zs"
  shows "read_block a (i # zs) NEllipsis
           = ([nat i], Inr \<lparr>ashape = 1 # S, abody = Arr [abody (filepaths a ! nat i)]\<rparr>)
         \<and> read_block a (i # zs) NEllipsis = read a (NSlice (PSlice (Some i) (Some (i + 1)) None))
         \<and> and_then (read_block a (i # zs) NEllipsis) squeeze0 = read a (NInt i)"
proof -
  let ?f = "filepaths a ! nat i"
  let ?r = "\<lparr>ashape = 1 # S, abody = Arr [abody ?f]\<rparr>"
  have j: "nat i < length (filepaths a)" using assms by linarith
  have f: "ashape ?f = S" "wf_nd S (abody ?f)"
    using slabs_nth [OF assms(1) j] by simp_all
  have no: "\<not> list_ex (\<lambda>b. b \<noteq> 0) zs"
    using assms(4) by (simp add: list_ex_iff list_all_iff)
  have "take (nat (i + 1 - i)) (drop (nat i) (filepaths a)) = [?f]"
    using j by (simp add: Cons_nth_drop_Suc [symmetric])
  then have rs: "read a (NSlice (PSlice (Some i) (Some (i + 1)) None)) = ([nat i], Inr ?r)"
    using read_range [OF assms(1) assms(2), of "i + 1" None] assms(2,3)
    by (simp add: nat_add_distrib)
  have g: "getitem ?r NEllipsis = Inr ?r"
    using f by (intro getitem_ellipsis) simp
  have rb: "read_block a (i # zs) NEllipsis = ([nat i], Inr ?r)"
    using no rs g by (simp add: read_block_def and_then_def)
  have sq: "squeeze0 ?r = Inr ?f"
    using f squeeze0_stack1 [of ?f] by (simp add: stack_def)
  have "read a (NInt i) = ([nat i], Inr ?f)"
    using assms(1-3) by (rule read_index)
  with rb rs sq show ?thesis
    by (simp add: and_then_def)
qed

text \<open>C1 as amended, at a concrete input: block (1, 0) of three files.\<close>

theorem read_block_leading_slab_witness:
  "slabs_of_shape (filepaths example_adapter) [2] \<and> (0::int) \<le> 1
   \<and> (1::int) < int (length (filepaths example_adapter))
   \<and> list_all (\<lambda>b. b = 0) [0::int]
   \<and> read_block example_adapter [1, 0] NEllipsis
       = ([1], Inr \<lparr>ashape = [1, 2], abody = Arr [Arr [Scalar 10, Scalar 11]]\<rparr>)"
  using read_block_leading_slab [OF example_slabs, of 1 "[0]"] example_slabs
  by (simp add: example_adapter_def example_files_def)

text \<open>
  C1 as stated fails: block (1, 0) of three files of shape (2,) has shape (1, 2),
  while \<open>read(1)\<close> has shape (2,).
\<close>

theorem read_block_equals_read_counterexample:
  "read_block example_adapter [1, 0] NEllipsis
     = ([1], Inr \<lparr>ashape = [1, 2], abody = Arr [Arr [Scalar 10, Scalar 11]]\<rparr>)
   \<and> read example_adapter (NInt 1)
     = ([1], Inr \<lparr>ashape = [2], abody = Arr [Scalar 10, Scalar 11]\<rparr>)
   \<and> read_block example_adapter [1, 0] NEllipsis \<noteq> read example_adapter (NInt 1)"
  by code_simp

text \<open>
  C2, as the code has it: over files that each hold a slab of shape \<open>S\<close>, with \<open>full\<close>
  the stacked array that \<open>read()\<close> returns, and for a tuple of a leading entry and at
  least one trailing entry: the files loaded are those that \<open>read\<close> loads for the
  leading entry alone, whatever the trailing entries are; and when the leading entry is
  an integer or \<open>Ellipsis\<close>, the result is \<open>np.atleast_1d\<close> of the whole selection applied
  to \<open>full\<close>, errors included.
\<close>

theorem read_tuple_trailing:
  assumes "slabs_of_shape (filepaths a) S" and "read a NEllipsis = (t, Inr full)"
  shows "fst (read a (NTuple (l # r # the_rest))) = fst (read a (entry l))
         \<and> (l = SEllipsis \<or> (\<exists>i. l = SInt i) \<longrightarrow>
              snd (read a (NTuple (l # r # the_rest)))
                = map_sum id atleast_1d (getitem full (NTuple (l # r # the_rest))))"
proof (cases l)
  case (SInt i)
  let ?fps = "filepaths a"
  have sh: "list_all (\<lambda>f. ashape f = S) ?fps"
    using assms(1) by (simp add: slabs_of_shape_def list_all_iff)
  have full: "full = stack S ?fps"
    using assms(2) slabs_slab_shape [OF assms(1)] unfolding read_all by simp
  have g: "getitem full (NTuple (l # r # the_rest))
           = (if in_range i (length ?fps)
              then getitem_tuple (?fps ! position i (length ?fps)) (r # the_rest)
              else Inl IndexError)"
    using getitem_tuple_stack_int [OF sh] by (simp add: getitem_def full SInt)
  have sq: "squeeze0 (stack (ashape (?fps ! position i (length ?fps)))
              [?fps ! position i (length ?fps)]) = Inr (?fps ! position i (length ?fps))"
    by (rule squeeze0_stack1)
  show ?thesis
    unfolding g using sq
    by (simp add: SInt entry_def fst_and_then load_from_files_def and_then_def Let_def
        getitem_def)
next
  case (SSlice sl)
  then show ?thesis by (simp add: entry_def fst_and_then)
next
  case SEllipsis
  with assms(2) show ?thesis
    by (simp add: entry_def fst_and_then and_then_def)
next
  case SNone
  then show ?thesis by (simp add: entry_def)
next
  case SOther
  then show ?thesis by (simp add: entry_def)
qed

text \<open>C2 as amended, at a concrete input: the selector (1, 1) on three files.\<close>

theorem read_tuple_trailing_witness:
  "slabs_of_shape (filepaths example_adapter) [2]
   \<and> read example_adapter NEllipsis = ([0, 1, 2], Inr example_full)
   \<and> fst (read example_adapter (NTuple [SInt 1, SInt 1])) = fst (read example_adapter (NInt 1))
   \<and> snd (read example_adapter (NTuple [SInt 1, SInt 1]))
       = map_sum id atleast_1d (getitem example_full (NTuple [SInt 1, SInt 1]))"
  using read_tuple_trailing [OF example_slabs example_read_all, of "SInt 1" "SInt 1" "[]"]
    example_slabs example_read_all
  by (simp add: entry_def)

text \<open>
  C2 as stated fails. The selector (1, 1) applied to the stacked array is the scalar 11,
  of shape (); \<open>read\<close> returns an array of shape (1,). The selector (slice(0, 2), 1)
  applied to the stacked array is [1, 11]; \<open>read\<close> applies the trailing entry to the
  leading axis of the two loaded slabs and returns [10, 11].
\<close>

theorem read_tuple_whole_selection_counterexample:
  "read example_adapter NEllipsis = ([0, 1, 2], Inr example_full)
   \<and> getitem example_full (NTuple [SInt 1, SInt 1]) = Inr \<lparr>ashape = [], abody = Scalar 11\<rparr>
   \<and> snd (read example_adapter (NTuple [SInt 1, SInt 1]))
       = Inr \<lparr>ashape = [1], abody = Arr [Scalar 11]\<rparr>
   \<and> snd (read example_adapter (NTuple [SInt 1, SInt 1]))
       \<noteq> getitem example_full (NTuple [SInt 1, SInt 1])
   \<and> getitem example_full (NTuple [SSlice (PSlice (Some 0) (Some 2) None), SInt 1])
       = Inr \<lparr>ashape = [2], abody = Arr [Scalar 1, Scalar 11]\<rparr>
   \<and> snd (read example_adapter (NTuple [SSlice (PSlice (Some 0) (Some 2) None), SInt 1]))
       = Inr \<lparr>ashape = [2], abody = Arr [Scalar 10, Scalar 11]\<rparr>
   \<and> snd (read example_adapter (NTuple [SSlice (PSlice (Some 0) (Some 2) None), SInt 1]))
       \<noteq> getitem example_full (NTuple [SSlice (PSlice (Some 0) (Some 2) None), SInt 1])"
  by code_simp

text \<open>
  C10: \<open>read\<close> with the empty tuple returns what \<open>read\<close> with the default \<open>Ellipsis\<close>
  returns, the stack of all files; and \<open>read\<close> with a tuple of one entry, be it an
  integer, a slice or \<open>Ellipsis\<close>, returns what \<open>read\<close> with that entry alone returns.
\<close>

theorem read_tuple_normalize:
  "read a (NTuple []) = read a NEllipsis
   \<and> read a (NTuple [])
       = ([0..<length (filepaths a)], Inr (stack (slab_shape (filepaths a)) (filepaths a)))
   \<and> read a (NTuple [SInt i]) = read a (NInt i)
   \<and> read a (NTuple [SSlice sl]) = read a (NSlice sl)
   \<and> read a (NTuple [SEllipsis]) = read a NEllipsis"
  using read_all [of a] by (simp add: entry_def)

section \<open>Error handling of the adapter\<close>

text \<open>
  C5: a block index with a nonzero entry in a trailing position makes \<open>read_block\<close>
  raise IndexError (the spec's AddressError), whatever the leading entry and the slice
  argument are, and no file is opened.
\<close>

theorem read_block_trailing_nonzero:
  assumes "\<exists>b \<in> set (drop 1 block). b \<noteq> 0"
  shows "read_block a block slice = ([], Inl IndexError)"
  using assms by (simp add: read_block_def list_ex_iff)

text \<open>C5 at a concrete input: the block (2, 1, 0) of the three files.\<close>

theorem read_block_trailing_nonzero_witness:
  "(\<exists>b \<in> set (drop 1 [2, 1, 0 :: int]). b \<noteq> 0)
   \<and> read_block example_adapter [2, 1, 0] NEllipsis = ([], Inl IndexError)"
  using read_block_trailing_nonzero [of "[2, 1, 0]" example_adapter NEllipsis]
  by simp







section \<open>The inferred structure\<close>

text \<open>
  C6: an adapter constructed over the files \<open>f # fs\<close> without a structure gets the
  shape \<open>(N, *S)\<close>, where \<open>N\<close> is the number of files and \<open>S\<close> the shape of the slab in
  the first file, and the chunks \<open>(1, ..., 1)\<close> (\<open>N\<close> ones) for the leading dimension
  and one chunk of full length for each trailing dimension; the chunk lengths of each
  dimension add up to that dimension's entry of the shape.
\<close>

theorem init_infers_structure:
  "FileSequenceAdapter_init (f # fs) None
     = Inr \<lparr>filepaths = f # fs,
             structure' = \<lparr>shape = length (f # fs) # ashape f,
                            chunks = replicate (length (f # fs)) 1 # map (\<lambda>i. [i]) (ashape f)\<rparr>\<rparr>
   \<and> map sum_list (replicate (length (f # fs)) 1 # map (\<lambda>i. [i]) (ashape f))
       = length (f # fs) # ashape f"
  by (simp add: FileSequenceAdapter_init_def load_from_files_def in_range_def position_def
      stack_def sum_list_replicate comp_def)

section \<open>The dataframe client\<close>

text \<open>
  C7: \<open>read_partition(p, columns)\<close> raises IndexError exactly when \<open>p\<close> is outside
  \<open>[0, npartitions)\<close>; for such a \<open>p\<close> the client that computes at once raises it
  before any request is sent; and a dataframe that is returned consists of the one
  task for partition \<open>p\<close>.
\<close>

theorem read_partition_range:
  "(read_partition c p cols = Inl IndexError
      \<longleftrightarrow> \<not> (0 \<le> p \<and> p < npartitions (structure_of c)))
   \<and> (\<not> (0 \<le> p \<and> p < npartitions (structure_of c))
        \<longrightarrow> DataFrameClient_read_partition c p cols = ([], Inl IndexError))
   \<and> (\<forall>df. read_partition c p cols = Inr df \<longrightarrow> tasks df = [(p, cols)])"
  by (auto simp: read_partition_def DataFrameClient_read_partition_def Let_def
      getitem_columns_def split: option.splits if_splits)

text \<open>C7 at concrete inputs: partitions 5 and 1 of a table of three partitions.\<close>

theorem read_partition_range_witness:
  "\<not> (0 \<le> (5::int) \<and> 5 < npartitions (structure_of example_client))
   \<and> read_partition example_client 5 None = Inl IndexError
   \<and> DataFrameClient_read_partition example_client 5 None = ([], Inl IndexError)
   \<and> read_partition example_client 1 None
       = Inr \<lparr>tasks = [(1, None)], df_meta = [''A'', ''B''], divisions = replicate 4 None\<rparr>
   \<and> tasks \<lparr>tasks = [(1, None)], df_meta = [''A'', ''B''], divisions = replicate 4 None\<rparr>
       = [(1, None)]"
  using read_partition_range [of example_client 5 None]
    read_partition_range [of example_client 1 None]
  by (simp add: example_client_def read_partition_def Let_def)

section \<open>The settings accessor\<close>

lemma calls_cached:
  "cache p = Some s \<Longrightarrow> calls Settings envs p = (replicate (length envs) s, p)"
  by (induction envs) (simp_all add: get_settings_def)

text \<open>
  C9: in a process whose cache is empty at the start, every call of \<open>get_settings\<close>
  returns the value that the first call constructed, whatever the environment is at
  the later calls, and \<open>Settings()\<close> runs once.
\<close>

theorem get_settings_cached:
  "calls Settings (env # envs) \<lparr>cache = None, constructed = 0\<rparr>
     = (replicate (length (env # envs)) (Settings env),
        \<lparr>cache = Some (Settings env), constructed = 1\<rparr>)"
  by (simp add: get_settings_def calls_cached Let_def)

end
